theory Spec2Isabelle
  imports Complex_Main "HOL-Library.Char_ord" "HOL-Library.List_Lexorder"
begin

section \<open>Data model\<close>

text \<open>
  The engine of \<^verbatim>\<open>app/utils/metrics.py\<close> and the filter of
  \<^verbatim>\<open>app/components/filters.py\<close> work on a pandas DataFrame prepared by
  \<^verbatim>\<open>DataLoader._process_data\<close>. A DataFrame is modelled as the list of its rows, in
  row order. Only the columns the modelled functions read are kept.

  \<^item> \<^verbatim>\<open>data\<close> is a day-precision timestamp; it is modelled as the number of days since
    1970-01-01 (pandas stores the same instant as nanoseconds since that day), so that
    \<^verbatim>\<open><=\<close> on timestamps is \<open>\<le>\<close> on integers.
  \<^item> \<^verbatim>\<open>tipoCliente\<close> is the result of mapping 0 to 'Varejo' and 1 to 'Atacado'
    (data_loader.py, lines 51-54): a two-valued label.
  \<^item> \<^verbatim>\<open>quantidade\<close>, \<^verbatim>\<open>receita\<close>, \<^verbatim>\<open>lucro\<close> are float64 cells. Finite
    floats are modelled as reals (no rounding error); the non-finite results of a
    division by zero are modelled separately, see \<open>fval\<close> below.
  \<^item> \<^verbatim>\<open>ano\<close> is the stored column \<^verbatim>\<open>data.dt.year\<close>; the engine compares the stored
    value, so it is a field of its own.
\<close>

datatype tipo_cliente = Atacado | Varejo

record row =
  data :: int
  loja :: string
  tipoCliente :: tipo_cliente
  quantidade :: real
  receita :: real
  lucro :: real
  ano :: int

type_synonym dataframe = "row list"

text \<open>The \<^verbatim>\<open>column\<close> argument of the scalar aggregates: the name of a metric column.\<close>

datatype metric = Quantidade | Receita | Lucro

fun column :: "metric \<Rightarrow> row \<Rightarrow> real" where
  "column Quantidade r = quantidade r"
| "column Receita r = receita r"
| "column Lucro r = lucro r"

subsection \<open>Results of float division\<close>

text \<open>
  pandas divides float64 columns the IEEE way: a division by zero does not raise, it
  yields \<open>inf\<close>, \<open>-inf\<close> or \<open>NaN\<close>. \<open>NaN\<close> is pandas' missing-value marker
  (\<^verbatim>\<open>isna\<close>, \<^verbatim>\<open>fillna\<close>); the infinities are ordinary, non-missing values.
\<close>

datatype fval = Fin real | PInf | NInf | NaN

definition fdiv :: "real \<Rightarrow> real \<Rightarrow> fval" where
  "fdiv a b =
     (if b \<noteq> 0 then Fin (a / b)
      else if a = 0 then NaN
      else if 0 < a then PInf
      else NInf)"

fun fscale :: "fval \<Rightarrow> real \<Rightarrow> fval" where
  "fscale (Fin x) c = Fin (x * c)"
| "fscale PInf c = (if 0 < c then PInf else if c < 0 then NInf else NaN)"
| "fscale NInf c = (if 0 < c then NInf else if c < 0 then PInf else NaN)"
| "fscale NaN c = NaN"

text \<open>
  \<^verbatim>\<open>Series.round(2)\<close> is numpy's rounding: scale by 100, round to the nearest integer
  with ties to the even one, scale back. Non-finite values are left as they are.
\<close>

definition rint :: "real \<Rightarrow> int" where
  "rint x =
     (let f = \<lfloor>x\<rfloor>; d = x - of_int f
      in if d < 1 / 2 then f
         else if 1 / 2 < d then f + 1
         else if even f then f else f + 1)"

definition round2 :: "real \<Rightarrow> real" where
  "round2 x = of_int (rint (x * 100)) / 100"

fun fround2 :: "fval \<Rightarrow> fval" where
  "fround2 (Fin x) = Fin (round2 x)"
| "fround2 v = v"

text \<open>\<^verbatim>\<open>.replace([float('inf'), float('-inf')], 0)\<close> and \<^verbatim>\<open>.fillna(0)\<close> on a float column.\<close>

fun replace_inf :: "fval \<Rightarrow> fval" where
  "replace_inf PInf = Fin 0"
| "replace_inf NInf = Fin 0"
| "replace_inf v = v"

fun fillna :: "fval \<Rightarrow> fval" where
  "fillna NaN = Fin 0"
| "fillna v = v"

fun isna :: "fval \<Rightarrow> bool" where
  "isna NaN = True"
| "isna v = False"

subsection \<open>Calendar\<close>

text \<open>
  The proleptic Gregorian calendar on day numbers, as \<^verbatim>\<open>datetime\<close> and pandas
  compute it. Day 0 is Thursday 1970-01-01. \<open>days_from_civil\<close> is the day number of a
  date (year, month, day), with the years counted from March so that the leap day is
  the last day of its year.
\<close>

definition days_from_civil :: "int \<Rightarrow> int \<Rightarrow> int \<Rightarrow> int" where
  "days_from_civil y0 m d =
     (let y = (if m \<le> 2 then y0 - 1 else y0);
          era = y div 400;
          yoe = y - era * 400;
          doy = (153 * (if 2 < m then m - 3 else m + 9) + 2) div 5 + d - 1;
          doe = yoe * 365 + yoe div 4 - yoe div 100 + doy
      in era * 146097 + doe - 719468)"

text \<open>
  Months are numbered through the years: month number \<open>i\<close> is month \<open>i mod 12 + 1\<close> of
  year \<open>i div 12\<close> (number 23640 is January 1970), and \<open>first_day i\<close> is its first day.
\<close>

definition first_day :: "int \<Rightarrow> int" where
  "first_day i = days_from_civil (i div 12) (i mod 12 + 1) 1"

text \<open>The first of March of a year, counted from March of year 0.\<close>

definition march_first :: "int \<Rightarrow> int" where
  "march_first y = (y div 400) * 146097 + (y - (y div 400) * 400) * 365
      + (y - (y div 400) * 400) div 4 - (y - (y div 400) * 400) div 100"

text \<open>A month has between 28 and 31 days; the walk through the months below ends
  because of it.\<close>

lemma div_step:
  fixes r n :: int
  assumes "0 < n"
  shows "r div n - (r - 1) div n = (if n dvd r then 1 else 0)"
proof -
  define q where "q = r div n"
  define s where "s = r mod n"
  have r: "r = n * q + s" and s: "0 \<le> s" "s < n"
    using assms by (simp_all add: q_def s_def)
  show ?thesis
  proof (cases "s = 0")
    case True
    have "r - 1 = n * (q - 1) + (n - 1)"
      by (simp add: r True algebra_simps)
    then have "(r - 1) div n = q - 1"
      by (rule int_div_pos_eq) (use assms in simp_all)
    moreover have "n dvd r"
      using True by (simp add: s_def dvd_eq_mod_eq_0)
    ultimately show ?thesis
      by (simp add: q_def)
  next
    case False
    have "r - 1 = n * q + (s - 1)"
      by (simp add: r)
    then have "(r - 1) div n = q"
      by (rule int_div_pos_eq) (use s False in simp_all)
    moreover have "\<not> n dvd r"
      using False by (simp add: s_def dvd_eq_mod_eq_0)
    ultimately show ?thesis
      by (simp add: q_def)
  qed
qed

lemma leap_cycle:
  fixes r :: int
  shows "r div 4 - (r - 1) div 4 - (r div 100 - (r - 1) div 100) = 0 \<or>
         r div 4 - (r - 1) div 4 - (r div 100 - (r - 1) div 100) = 1"
proof -
  have "4 dvd r" if "100 dvd r"
    using that by (rule dvd_trans [rotated]) simp
  then show ?thesis
    by (simp add: div_step)
qed

lemma march_step: "march_first y - march_first (y - 1) = 365 \<or> march_first y - march_first (y - 1) = 366"
proof -
  define e where "e = y div 400"
  define r where "r = y mod 400"
  have y: "y = 400 * e + r" and r: "0 \<le> r" "r < 400"
    by (simp_all add: e_def r_def)
  show ?thesis
  proof (cases "r = 0")
    case True
    then have "(y - 1) div 400 = e - 1" "y div 400 = e"
      unfolding y by simp_all
    then show ?thesis
      unfolding march_first_def by (simp add: y True)
  next
    case False
    with r have pos: "0 < r" by simp
    then have d: "(y - 1) div 400 = e" "y div 400 = e"
      unfolding y using r by simp_all
    have "march_first y - march_first (y - 1) =
        365 + (r div 4 - (r - 1) div 4 - (r div 100 - (r - 1) div 100))"
      unfolding march_first_def d by (simp add: y algebra_simps)
    with leap_cycle [of r] show ?thesis
      by auto
  qed
qed

lemma first_day_step:
  "first_day i + 28 \<le> first_day (i + 1) \<and> first_day (i + 1) \<le> first_day i + 31"
proof -
  define y where "y = i div 12"
  define k where "k = i mod 12"
  have i: "i = 12 * y + k" and k: "0 \<le> k" "k < 12"
    by (simp_all add: y_def k_def)
  from k have "k = 0 \<or> k = 1 \<or> k = 2 \<or> k = 3 \<or> k = 4 \<or> k = 5 \<or> k = 6
    \<or> k = 7 \<or> k = 8 \<or> k = 9 \<or> k = 10 \<or> k = 11"
    by presburger
  then consider "k = 0" | "k = 1" | "k = 2" | "k = 3" | "k = 4" | "k = 5" | "k = 6"
    | "k = 7" | "k = 8" | "k = 9" | "k = 10" | "k = 11"
    by blast
  then show ?thesis
  proof cases
    case 2
    then show ?thesis
      using march_step [of y]
      by (auto simp add: i first_day_def days_from_civil_def Let_def march_first_def)
  qed (simp_all add: i first_day_def days_from_civil_def Let_def)
qed


text \<open>
  The date of a day number. The month is found by walking the months forward (numpy
  also finds the month by stepping through the month lengths): \<open>month_from z i\<close>
  starts at a month \<open>i\<close> that begins on or before day \<open>z\<close> and stops at the month
  whose successor begins after \<open>z\<close>. \<open>month_guess\<close> is a month that begins on or
  before the day, since no month is longer than 31 days or shorter than 28.
\<close>

function month_from :: "int \<Rightarrow> int \<Rightarrow> int" where
  "month_from z i = (if first_day (i + 1) \<le> z then month_from z (i + 1) else i)"
  by pat_completeness auto
termination
proof (relation "measure (\<lambda>(z, i). nat (z - first_day (i + 1) + 1))")
  show "wf (measure (\<lambda>(z, i). nat (z - first_day (i + 1) + 1)))"
    by simp
next
  fix z i :: int
  assume "first_day (i + 1) \<le> z"
  then show "((z, i + 1), (z, i)) \<in> measure (\<lambda>(z, i). nat (z - first_day (i + 1) + 1))"
    using first_day_step [of "i + 1"] by simp
qed

definition month_guess :: "int \<Rightarrow> int" where
  "month_guess z = 23640 + (if 0 \<le> z then z div 31 else z div 28)"

definition month_index :: "int \<Rightarrow> int" where
  "month_index z = month_from z (month_guess z)"

definition civil_from_days :: "int \<Rightarrow> int \<times> int \<times> int" where
  "civil_from_days z =
     (let i = month_index z in (i div 12, i mod 12 + 1, z - first_day i + 1))"

definition year_of :: "int \<Rightarrow> int" where
  "year_of z = fst (civil_from_days z)"

definition day_of_year :: "int \<Rightarrow> int" where
  "day_of_year z = z - days_from_civil (year_of z) 1 1 + 1"

text \<open>Monday is 0 and Sunday is 6, as \<^verbatim>\<open>datetime.weekday()\<close>.\<close>

definition weekday :: "int \<Rightarrow> int" where
  "weekday z = (z + 3) mod 7"

definition month_end :: "int \<Rightarrow> int" where
  "month_end z =
     (case civil_from_days z of
        (y, m, d) \<Rightarrow>
          (if m = 12 then days_from_civil (y + 1) 1 1 else days_from_civil y (m + 1) 1) - 1)"

section \<open>Filter evaluator (app/components/filters.py)\<close>

text \<open>
  \<^verbatim>\<open>FilterComponent._filters\<close> is a dictionary read with \<^verbatim>\<open>.get\<close>: a key that is
  absent and a key bound to \<^verbatim>\<open>None\<close> both read as \<^verbatim>\<open>None\<close>. The state is passed
  explicitly as a record of optional values.
\<close>

record filters =
  lojas :: "string list option"
  tiposCliente :: "tipo_cliente list option"
  data_inicio :: "int option"
  data_fim :: "int option"

text \<open>Python truthiness of an optional list: \<^verbatim>\<open>None\<close> and \<^verbatim>\<open>[]\<close> are falsy.\<close>

fun selected :: "'a list option \<Rightarrow> 'a list" where
  "selected None = []"
| "selected (Some xs) = xs"

definition truthy :: "'a list option \<Rightarrow> bool" where
  "truthy v = (selected v \<noteq> [])"

text \<open>
  \<^verbatim>\<open>apply_filters\<close>, lines 83-101: the store filter (skipped when 'Empresa' is among
  the selected stores), then the customer-type filter, then the date filter (only when
  both bounds are there; a timestamp is always truthy).
\<close>

definition apply_filters :: "filters \<Rightarrow> dataframe \<Rightarrow> dataframe" where
  "apply_filters f df =
     (let filtered1 =
            (if truthy (lojas f) then
               (if ''Empresa'' \<notin> set (selected (lojas f))
                then filter (\<lambda>r. loja r \<in> set (selected (lojas f))) df
                else df)
             else df);
          filtered2 =
            (if truthy (tiposCliente f)
             then filter (\<lambda>r. tipoCliente r \<in> set (selected (tiposCliente f))) filtered1
             else filtered1)
      in (case (data_inicio f, data_fim f) of
            (Some a, Some b) \<Rightarrow> filter (\<lambda>r. a \<le> data r \<and> data r \<le> b) filtered2
          | _ \<Rightarrow> filtered2))"

section \<open>Aggregation engine (app/utils/metrics.py)\<close>

subsection \<open>Scalar aggregates\<close>

definition calculate_total :: "dataframe \<Rightarrow> metric \<Rightarrow> real" where
  "calculate_total df col = sum_list (map (column col) df)"

text \<open>
  \<^verbatim>\<open>datetime.now()\<close> is an input of the model: \<open>now\<close> is the day number of the
  processing date. The \<^verbatim>\<open>data\<close> cells are midnights, so comparing them with the
  clock reading is comparing day numbers.
\<close>

text \<open>The defaults of the year arguments (lines 39-40, 67-70 and 208-211).\<close>

definition default_year :: "int \<Rightarrow> int option \<Rightarrow> int" where
  "default_year now y = (case y of None \<Rightarrow> year_of now | Some v \<Rightarrow> v)"

definition default_previous :: "int \<Rightarrow> int option \<Rightarrow> int" where
  "default_previous cy y = (case y of None \<Rightarrow> cy - 1 | Some v \<Rightarrow> v)"

definition calculate_ytd :: "int \<Rightarrow> dataframe \<Rightarrow> metric \<Rightarrow> int option \<Rightarrow> real" where
  "calculate_ytd now df col reference_year =
     (let ref = default_year now reference_year;
          current_date = now
      in sum_list (map (column col)
           (filter (\<lambda>r. ano r = ref \<and> data r \<le> current_date) df)))"

text \<open>
  \<^verbatim>\<open>calculate_yoy\<close>. The two sums are numpy float64 scalars: dividing them by zero
  would not raise, it would give \<open>inf\<close>, \<open>-inf\<close> or \<open>NaN\<close>. The division of line 78
  is therefore the float division \<open>fdiv\<close>, and \<^verbatim>\<open>percentage\<close> is a float result
  that could be non-finite; the conditional of line 78 is what keeps it finite.
\<close>

record yoy_result =
  current_value :: real
  previous_value :: real
  difference :: real
  percentage :: fval

definition calculate_yoy ::
  "int \<Rightarrow> dataframe \<Rightarrow> metric \<Rightarrow> int option \<Rightarrow> int option \<Rightarrow> yoy_result" where
  "calculate_yoy now df col current_year previous_year =
     (let cy = default_year now current_year;
          py = default_previous cy previous_year;
          current_ytd = calculate_ytd now df col (Some cy);
          previous_ytd = calculate_ytd now df col (Some py);
          diff = current_ytd - previous_ytd;
          pct = (if previous_ytd \<noteq> 0 then fscale (fdiv diff previous_ytd) 100 else Fin 0)
      in \<lparr>current_value = current_ytd, previous_value = previous_ytd,
          difference = diff, percentage = pct\<rparr>)"

subsection \<open>Period series\<close>

text \<open>
  \<^verbatim>\<open>df.groupby(pd.Grouper(key='data', freq=period))[column].sum().reset_index()\<close>.
  A \<^verbatim>\<open>Grouper\<close> with a frequency resamples: pandas lays out every bin of that
  frequency from the bin of the earliest row to the bin of the latest row, store_sums the
  column over the rows of each bin (an empty bin store_sums to 0), and labels each bin
  \<^item> 'D': with the day itself,
  \<^item> 'W' (weeks anchored on Sunday, closed and labelled on the right): with the Sunday
    that closes the week, that is the first Sunday on or after the row's day,
  \<^item> 'M' (month end, closed and labelled on the right): with the last day of the month.
  An empty frame gives an empty result.
\<close>

datatype period = D | W | M

fun period_label :: "period \<Rightarrow> int \<Rightarrow> int" where
  "period_label D z = z"
| "period_label W z = z + (6 - weekday z)"
| "period_label M z = month_end z"

definition rows_in_bin :: "period \<Rightarrow> int \<Rightarrow> dataframe \<Rightarrow> dataframe" where
  "rows_in_bin p k df = filter (\<lambda>r. period_label p (data r) = k) df"

definition bin_labels :: "period \<Rightarrow> int \<Rightarrow> int \<Rightarrow> int list" where
  "bin_labels p earliest latest =
     filter (\<lambda>k. period_label p k = k) [period_label p earliest .. period_label p latest]"

definition aggregate_by_period :: "dataframe \<Rightarrow> metric \<Rightarrow> period \<Rightarrow> (int \<times> real) list" where
  "aggregate_by_period df col p =
     (if df = [] then []
      else map (\<lambda>k. (k, sum_list (map (column col) (rows_in_bin p k df))))
             (bin_labels p (Min (set (map data df))) (Max (set (map data df)))))"

subsection \<open>Grouping by store and channel\<close>

text \<open>
  \<^verbatim>\<open>groupby\<close> sorts the group keys and keeps only the keys that occur. The keys of
  \<^verbatim>\<open>groupby('loja')\<close> are the sorted distinct store names; the keys of
  \<^verbatim>\<open>groupby(['loja', 'tipoCliente'])\<close> are the pairs that occur, ordered by store and
  then by label ('Atacado' before 'Varejo').
\<close>

definition store_keys :: "dataframe \<Rightarrow> string list" where
  "store_keys df = sort (remdups (map loja df))"

definition rows_of_store :: "string \<Rightarrow> dataframe \<Rightarrow> dataframe" where
  "rows_of_store s df = filter (\<lambda>r. loja r = s) df"

definition rows_of_group :: "string \<Rightarrow> tipo_cliente \<Rightarrow> dataframe \<Rightarrow> dataframe" where
  "rows_of_group s t df = filter (\<lambda>r. loja r = s \<and> tipoCliente r = t) df"

definition channel_keys :: "dataframe \<Rightarrow> (string \<times> tipo_cliente) list" where
  "channel_keys df =
     concat (map (\<lambda>s. filter (\<lambda>(s', t). rows_of_group s' t df \<noteq> []) [(s, Atacado), (s, Varejo)])
               (store_keys df))"

record channel_row =
  c_loja :: string
  c_tipoCliente :: tipo_cliente
  c_quantidade :: real
  c_receita :: real
  c_lucro :: real
  ticket_medio :: fval
  lucro_medio :: fval

definition channel_metrics :: "dataframe \<Rightarrow> string \<times> tipo_cliente \<Rightarrow> channel_row" where
  "channel_metrics df k =
     (case k of (s, t) \<Rightarrow>
        let g = rows_of_group s t df;
            q = sum_list (map quantidade g);
            r = sum_list (map receita g);
            l = sum_list (map lucro g)
        in \<lparr>c_loja = s, c_tipoCliente = t, c_quantidade = q, c_receita = r, c_lucro = l,
            ticket_medio = fround2 (fdiv r q), lucro_medio = fround2 (fdiv l q)\<rparr>)"

definition calculate_by_store_and_channel :: "dataframe \<Rightarrow> channel_row list" where
  "calculate_by_store_and_channel df = map (channel_metrics df) (channel_keys df)"

fun c_metric :: "metric \<Rightarrow> channel_row \<Rightarrow> real" where
  "c_metric Quantidade r = c_quantidade r"
| "c_metric Receita r = c_receita r"
| "c_metric Lucro r = c_lucro r"






subsection \<open>Year over year by store\<close>

text \<open>
  \<^verbatim>\<open>calculate_yoy_by_store\<close>: the per-store store_sums of the rows of each year, the outer
  merge on the store (the union of the keys, sorted; a side without the key has NaN
  cells), \<^verbatim>\<open>fillna(0)\<close>, and the three variation columns.
\<close>

type_synonym store_sums = "real \<times> real \<times> real"

definition agg_by_store :: "dataframe \<Rightarrow> (string \<times> store_sums) list" where
  "agg_by_store df =
     map (\<lambda>s. (s, sum_list (map quantidade (rows_of_store s df)),
                   sum_list (map receita (rows_of_store s df)),
                   sum_list (map lucro (rows_of_store s df))))
       (store_keys df)"

definition merge_outer ::
  "(string \<times> store_sums) list \<Rightarrow> (string \<times> store_sums) list \<Rightarrow> (string \<times> store_sums option \<times> store_sums option) list" where
  "merge_outer left right =
     map (\<lambda>s. (s, map_of left s, map_of right s)) (sort (remdups (map fst left @ map fst right)))"

fun fillna_sums :: "store_sums option \<Rightarrow> store_sums" where
  "fillna_sums None = (0, 0, 0)"
| "fillna_sums (Some v) = v"

definition var_pct :: "real \<Rightarrow> real \<Rightarrow> fval" where
  "var_pct atual anterior = fillna (replace_inf (fscale (fdiv (atual - anterior) anterior) 100))"

record yoy_row =
  y_loja :: string
  quantidade_atual :: real
  receita_atual :: real
  lucro_atual :: real
  quantidade_anterior :: real
  receita_anterior :: real
  lucro_anterior :: real
  var_quantidade_pct :: fval
  var_receita_pct :: fval
  var_lucro_pct :: fval

definition comparison_row :: "string \<times> store_sums option \<times> store_sums option \<Rightarrow> yoy_row" where
  "comparison_row m =
     (case m of (s, l, r) \<Rightarrow>
        (case (fillna_sums l, fillna_sums r) of
           ((qa, ra, la), (qp, rp, lp)) \<Rightarrow>
             \<lparr>y_loja = s,
              quantidade_atual = qa, receita_atual = ra, lucro_atual = la,
              quantidade_anterior = qp, receita_anterior = rp, lucro_anterior = lp,
              var_quantidade_pct = var_pct qa qp,
              var_receita_pct = var_pct ra rp,
              var_lucro_pct = var_pct la lp\<rparr>))"

definition calculate_yoy_by_store ::
  "int \<Rightarrow> dataframe \<Rightarrow> int option \<Rightarrow> int option \<Rightarrow> yoy_row list" where
  "calculate_yoy_by_store now df current_year previous_year =
     (let cy = default_year now current_year;
          py = default_previous cy previous_year;
          current_data = agg_by_store (filter (\<lambda>r. ano r = cy) df);
          previous_data = agg_by_store (filter (\<lambda>r. ano r = py) df)
      in map comparison_row (merge_outer current_data previous_data))"

fun y_atual :: "metric \<Rightarrow> yoy_row \<Rightarrow> real" where
  "y_atual Quantidade r = quantidade_atual r"
| "y_atual Receita r = receita_atual r"
| "y_atual Lucro r = lucro_atual r"

fun y_anterior :: "metric \<Rightarrow> yoy_row \<Rightarrow> real" where
  "y_anterior Quantidade r = quantidade_anterior r"
| "y_anterior Receita r = receita_anterior r"
| "y_anterior Lucro r = lucro_anterior r"

fun y_var_pct :: "metric \<Rightarrow> yoy_row \<Rightarrow> fval" where
  "y_var_pct Quantidade r = var_quantidade_pct r"
| "y_var_pct Receita r = var_receita_pct r"
| "y_var_pct Lucro r = var_lucro_pct r"

section \<open>Sample tables\<close>

text \<open>
  Concrete tables on which the theorems below are instantiated. Day 19500 is
  2023-05-23, day 19721 is 2023-12-30, day 19722 is 2023-12-31, day 19723 is Monday
  2024-01-01, day 19737 is Monday 2024-01-15 and day 19889 is 2024-06-15.
\<close>

definition mk_row ::
  "int \<Rightarrow> string \<Rightarrow> tipo_cliente \<Rightarrow> real \<Rightarrow> real \<Rightarrow> real \<Rightarrow> int \<Rightarrow> row" where
  "mk_row d s t q r l y =
     \<lparr>data = d, loja = s, tipoCliente = t, quantidade = q, receita = r, lucro = l, ano = y\<rparr>"

definition sample_table :: dataframe where
  "sample_table =
     [mk_row 19721 ''B'' Atacado 4 20 3 2023,
      mk_row 19722 ''C'' Varejo 1 7 1 2023,
      mk_row 19723 ''B'' Varejo 2 10 2 2024,
      mk_row 19725 ''A'' Varejo 1 1 1 2024,
      mk_row 19737 ''A'' Atacado 3 50 5 2024]"

text \<open>Store A sold nothing in 2023 and 50 units in 2024.\<close>

definition new_store_table :: dataframe where
  "new_store_table =
     [mk_row 19500 ''A'' Varejo 0 0 0 2023,
      mk_row 19737 ''A'' Varejo 50 500 40 2024]"

text \<open>Store A has revenue (and a loss) on a row without quantity; store B has a row
  of zeros.\<close>

definition zero_quantity_table :: dataframe where
  "zero_quantity_table =
     [mk_row 19723 ''A'' Varejo 0 10 (-2) 2024,
      mk_row 19725 ''B'' Varejo 0 0 0 2024]"


text \<open>A sale on the last day of 2023 and a sale in January 2024.\<close>

definition year_end_table :: dataframe where
  "year_end_table =
     [mk_row 19722 ''A'' Varejo 1 100 10 2023,
      mk_row 19737 ''A'' Varejo 1 40 4 2024]"

text \<open>Two sales two weeks apart: Monday 2024-01-01 and Monday 2024-01-15.\<close>

definition gap_table :: dataframe where
  "gap_table =
     [mk_row 19723 ''A'' Varejo 1 100 10 2024,
      mk_row 19737 ''A'' Varejo 1 50 5 2024]"

text \<open>
  The reading of the specification for the previous-year value of the year-over-year
  comparison, in the specification's words: both years are summed only up to the same
  day-of-year boundary, so the previous year's total covers only as much of that year
  as has elapsed of the current year. It is compared with \<open>calculate_yoy\<close> below.
\<close>

definition spec_ytd_same_day_of_year :: "int \<Rightarrow> dataframe \<Rightarrow> metric \<Rightarrow> int \<Rightarrow> real" where
  "spec_ytd_same_day_of_year now df col y =
     sum_list (map (column col)
       (filter (\<lambda>r. ano r = y \<and> day_of_year (data r) \<le> day_of_year now) df))"

definition sample_filters :: filters where
  "sample_filters =
     \<lparr>lojas = None, tiposCliente = None, data_inicio = Some 19723, data_fim = None\<rparr>"

section \<open>Properties of the filter evaluator\<close>

text \<open>
  Claim C6. When the selected stores contain the sentinel 'Empresa', \<open>apply_filters\<close>
  applies no store restriction: whatever concrete names accompany the sentinel, and
  whatever the stores of the rows are (a row whose store is literally 'Empresa'
  included), the result is the result with no store selection at all.
\<close>

theorem sentinel_skips_store_filter:
  "''Empresa'' \<in> set stores \<Longrightarrow>
     apply_filters (f\<lparr>lojas := Some stores\<rparr>) df = apply_filters (f\<lparr>lojas := None\<rparr>) df"
  by (auto simp: apply_filters_def truthy_def)

theorem sentinel_skips_store_filter_witness:
  "''Empresa'' \<in> set [''Empresa'', ''A''] \<and>
   apply_filters (sample_filters\<lparr>lojas := Some [''Empresa'', ''A'']\<rparr>) sample_table = sample_table \<and>
   apply_filters (sample_filters\<lparr>lojas := None\<rparr>) sample_table = sample_table"
  using sentinel_skips_store_filter [of "[''Empresa'', ''A'']" sample_filters sample_table]
  by (simp add: apply_filters_def truthy_def sample_filters_def sample_table_def mk_row_def)

text \<open>
  Claim C10. \<open>apply_filters\<close> restricts by date only when both bounds are set: when
  either bound is absent, the result is the result with no date bound at all, so rows
  of every date pass.
\<close>

theorem date_filter_needs_both_bounds:
  "data_inicio f = None \<or> data_fim f = None \<Longrightarrow>
     apply_filters f df = apply_filters (f\<lparr>data_inicio := None, data_fim := None\<rparr>) df"
  by (auto simp: apply_filters_def split: option.splits)

theorem date_filter_needs_both_bounds_witness:
  "(data_inicio sample_filters = Some 19723 \<and> data_fim sample_filters = None) \<and>
   apply_filters sample_filters sample_table = sample_table \<and>
   apply_filters (sample_filters\<lparr>data_inicio := None, data_fim := None\<rparr>) sample_table
     = sample_table \<and>
   map data sample_table = [19721, 19722, 19723, 19725, 19737]"
  using date_filter_needs_both_bounds [of sample_filters sample_table]
  by (simp add: apply_filters_def truthy_def sample_filters_def sample_table_def mk_row_def)

section \<open>Properties of the aggregation engine\<close>

text \<open>
  Claim C9. On the empty table, \<open>calculate_total\<close> is 0, \<open>aggregate_by_period\<close> is the
  empty sequence and \<open>apply_filters\<close> is the empty table, for every metric, every
  period and every filter state. The model has no failure value for these functions
  because none of the three raises on a frame without rows.
\<close>

theorem empty_table_identities:
  "calculate_total [] col = 0 \<and> aggregate_by_period [] col p = [] \<and> apply_filters f [] = []"
  by (simp add: calculate_total_def aggregate_by_period_def apply_filters_def Let_def
      split: option.splits)

theorem empty_table_identities_witness:
  "calculate_total [] Receita = 0 \<and> aggregate_by_period [] Receita W = [] \<and>
   apply_filters sample_filters [] = []"
  using empty_table_identities [of Receita W sample_filters]
  by simp

subsection \<open>Year over year\<close>

lemma column_eqs:
  "column Quantidade = quantidade" "column Receita = receita" "column Lucro = lucro"
  by (simp_all add: fun_eq_iff)

lemma set_store_keys: "set (store_keys df) = loja ` set df"
  by (simp add: store_keys_def)

lemma distinct_store_keys: "distinct (store_keys df)"
  by (simp add: store_keys_def)

lemma map_fst_agg_by_store: "map fst (agg_by_store df) = store_keys df"
  by (simp add: agg_by_store_def comp_def)

lemma map_of_tabulate:
  "map_of (map (\<lambda>k. (k, g k)) ks) x = (if x \<in> set ks then Some (g x) else None)"
  by (induction ks) auto

lemma rows_of_store_absent: "s \<notin> loja ` set df \<Longrightarrow> rows_of_store s df = []"
  by (auto simp: rows_of_store_def filter_empty_conv)

text \<open>After \<^verbatim>\<open>fillna(0)\<close>, a side of the merge holds the sums of the store's rows,
  whether the store has rows on that side or not.\<close>

lemma fillna_sums_agg:
  "fillna_sums (map_of (agg_by_store df) s) =
     (sum_list (map quantidade (rows_of_store s df)),
      sum_list (map receita (rows_of_store s df)),
      sum_list (map lucro (rows_of_store s df)))"
  unfolding agg_by_store_def map_of_tabulate
  by (simp add: set_store_keys rows_of_store_absent)

lemma y_loja_comparison_row: "y_loja (comparison_row (s, l, r)) = s"
  by (simp add: comparison_row_def split: prod.splits)

lemma map_y_loja:
  "map y_loja (map comparison_row (merge_outer left right)) =
     sort (remdups (map fst left @ map fst right))"
  by (simp add: merge_outer_def comp_def y_loja_comparison_row)

lemma yoy_stores:
  "map y_loja (calculate_yoy_by_store now df cy py) =
     sort (remdups
       (store_keys (filter (\<lambda>r. ano r = default_year now cy) df) @
        store_keys (filter (\<lambda>r. ano r = default_previous (default_year now cy) py) df)))"
  by (simp only: calculate_yoy_by_store_def Let_def map_y_loja map_fst_agg_by_store)

lemma yoy_row_sums:
  assumes "r \<in> set (calculate_yoy_by_store now df cy py)"
  shows "y_atual m r = sum_list (map (column m)
            (rows_of_store (y_loja r) (filter (\<lambda>r. ano r = default_year now cy) df)))"
    and "y_anterior m r = sum_list (map (column m)
            (rows_of_store (y_loja r)
               (filter (\<lambda>r. ano r = default_previous (default_year now cy) py) df)))"
    and "y_var_pct m r = var_pct (y_atual m r) (y_anterior m r)"
proof -
  let ?cur = "agg_by_store (filter (\<lambda>r. ano r = default_year now cy) df)"
  let ?prev =
    "agg_by_store (filter (\<lambda>r. ano r = default_previous (default_year now cy) py) df)"
  from assms obtain s where r: "r = comparison_row (s, map_of ?cur s, map_of ?prev s)"
    by (auto simp: calculate_yoy_by_store_def Let_def merge_outer_def)
  show "y_atual m r = sum_list (map (column m)
            (rows_of_store (y_loja r) (filter (\<lambda>r. ano r = default_year now cy) df)))"
    unfolding r by (cases m) (simp_all add: comparison_row_def fillna_sums_agg column_eqs)
  show "y_anterior m r = sum_list (map (column m)
            (rows_of_store (y_loja r)
               (filter (\<lambda>r. ano r = default_previous (default_year now cy) py) df)))"
    unfolding r by (cases m) (simp_all add: comparison_row_def fillna_sums_agg column_eqs)
  show "y_var_pct m r = var_pct (y_atual m r) (y_anterior m r)"
    unfolding r by (cases m) (simp_all add: comparison_row_def fillna_sums_agg)
qed

lemma var_pct_zero: "var_pct a 0 = Fin 0"
  by (simp add: var_pct_def fdiv_def)

text \<open>Without the conditional of line 78, a zero previous-year sum would give a
  non-finite percentage.\<close>

lemma unguarded_percentage:
  "fscale (fdiv d 0) 100 = (if d = 0 then NaN else if 0 < d then PInf else NInf)"
  by (simp add: fdiv_def)

text \<open>
  Claim C3. \<open>calculate_yoy\<close> returns the finite percentage 0 whenever the
  previous-year sum is 0 (the float division by zero, which would give an infinity or
  NaN, is not evaluated). In every row of \<open>calculate_yoy_by_store\<close> the previous-year
  column of a metric is the sum of that metric over the store's rows of the previous
  year (0 when the store has none), and whenever it is 0 the variation column of the
  metric is the finite number 0, whatever the current-year sum: not an infinity, not
  NaN. Neither function raises on this path: float division by zero yields a value.
\<close>

theorem yoy_zero_previous_policy:
  "(previous_value (calculate_yoy now df col cy py) = 0 \<longrightarrow>
      percentage (calculate_yoy now df col cy py) = Fin 0) \<and>
   (\<forall>r \<in> set (calculate_yoy_by_store now df cy py).
      y_anterior m r = sum_list (map (column m)
         (rows_of_store (y_loja r)
            (filter (\<lambda>r. ano r = default_previous (default_year now cy) py) df))) \<and>
      (y_anterior m r = 0 \<longrightarrow> y_var_pct m r = Fin 0))"
proof (intro conjI ballI impI)
  assume "previous_value (calculate_yoy now df col cy py) = 0"
  then show "percentage (calculate_yoy now df col cy py) = Fin 0"
    by (simp add: calculate_yoy_def Let_def)
next
  fix r assume r: "r \<in> set (calculate_yoy_by_store now df cy py)"
  show "y_anterior m r = sum_list (map (column m)
         (rows_of_store (y_loja r)
            (filter (\<lambda>r. ano r = default_previous (default_year now cy) py) df)))"
    by (rule yoy_row_sums(2) [OF r])
  assume "y_anterior m r = 0"
  then show "y_var_pct m r = Fin 0"
    by (simp add: yoy_row_sums(3) [OF r] var_pct_zero)
qed

theorem yoy_zero_previous_policy_witness:
  "(previous_value (calculate_yoy 19889 new_store_table Quantidade (Some 2024) (Some 2023)) = 0 \<and>
    current_value (calculate_yoy 19889 new_store_table Quantidade (Some 2024) (Some 2023)) = 50 \<and>
    map y_loja (calculate_yoy_by_store 19889 new_store_table (Some 2024) (Some 2023)) = [''A''] \<and>
    map quantidade_atual (calculate_yoy_by_store 19889 new_store_table (Some 2024) (Some 2023))
      = [50] \<and>
    map quantidade_anterior (calculate_yoy_by_store 19889 new_store_table (Some 2024) (Some 2023))
      = [0]) \<and>
   percentage (calculate_yoy 19889 new_store_table Quantidade (Some 2024) (Some 2023)) = Fin 0 \<and>
   var_quantidade_pct (hd (calculate_yoy_by_store 19889 new_store_table (Some 2024) (Some 2023)))
     = Fin 0"
proof -
  let ?res = "calculate_yoy_by_store 19889 new_store_table (Some 2024) (Some 2023)"
  note policy = yoy_zero_previous_policy
    [where now = 19889 and df = new_store_table and col = Quantidade and m = Quantidade
       and cy = "Some 2024" and py = "Some 2023"]
  have ev:
    "previous_value (calculate_yoy 19889 new_store_table Quantidade (Some 2024) (Some 2023)) = 0 \<and>
     current_value (calculate_yoy 19889 new_store_table Quantidade (Some 2024) (Some 2023)) = 50 \<and>
     map y_loja ?res = [''A''] \<and>
     map quantidade_atual ?res = [50] \<and>
     map quantidade_anterior ?res = [0]"
    by code_simp
  have mem: "hd ?res \<in> set ?res"
    by code_simp
  have zero: "y_anterior Quantidade (hd ?res) = 0"
    by code_simp
  from policy ev have pct:
    "percentage (calculate_yoy 19889 new_store_table Quantidade (Some 2024) (Some 2023)) = Fin 0"
    by blast
  from policy mem zero have "y_var_pct Quantidade (hd ?res) = Fin 0"
    by blast
  then have var: "var_quantidade_pct (hd ?res) = Fin 0"
    by simp
  from ev pct var show ?thesis
    by blast
qed

text \<open>
  Claim C4. \<open>calculate_yoy_by_store\<close> has exactly one row per store of the union of
  the stores of the current-year rows and the stores of the previous-year rows (the
  store column has no duplicate and its set is that union), and a store with rows in
  only one of the two years has the three sums of the other year equal to 0.
\<close>

theorem yoy_by_store_outer_join:
  fixes now :: int and df :: dataframe and cy py :: "int option"
  defines "cur \<equiv> filter (\<lambda>r. ano r = default_year now cy) df"
      and "prev \<equiv> filter (\<lambda>r. ano r = default_previous (default_year now cy) py) df"
      and "res \<equiv> calculate_yoy_by_store now df cy py"
  shows "distinct (map y_loja res) \<and>
     set (map y_loja res) = loja ` set cur \<union> loja ` set prev \<and>
     (\<forall>r \<in> set res. y_loja r \<notin> loja ` set prev \<longrightarrow>
        quantidade_anterior r = 0 \<and> receita_anterior r = 0 \<and> lucro_anterior r = 0) \<and>
     (\<forall>r \<in> set res. y_loja r \<notin> loja ` set cur \<longrightarrow>
        quantidade_atual r = 0 \<and> receita_atual r = 0 \<and> lucro_atual r = 0)"
proof -
  have keys: "map y_loja res = sort (remdups (store_keys cur @ store_keys prev))"
    unfolding res_def cur_def prev_def by (rule yoy_stores)
  have d: "distinct (map y_loja res)"
    unfolding keys by simp
  have s: "set (map y_loja res) = loja ` set cur \<union> loja ` set prev"
    unfolding keys by (simp add: set_store_keys)
  have p: "quantidade_anterior r = 0 \<and> receita_anterior r = 0 \<and> lucro_anterior r = 0"
    if "r \<in> set res" "y_loja r \<notin> loja ` set prev" for r
    using yoy_row_sums(2) [OF that(1) [unfolded res_def], of Quantidade]
          yoy_row_sums(2) [OF that(1) [unfolded res_def], of Receita]
          yoy_row_sums(2) [OF that(1) [unfolded res_def], of Lucro]
          rows_of_store_absent [OF that(2)]
    by (simp add: prev_def)
  have c: "quantidade_atual r = 0 \<and> receita_atual r = 0 \<and> lucro_atual r = 0"
    if "r \<in> set res" "y_loja r \<notin> loja ` set cur" for r
    using yoy_row_sums(1) [OF that(1) [unfolded res_def], of Quantidade]
          yoy_row_sums(1) [OF that(1) [unfolded res_def], of Receita]
          yoy_row_sums(1) [OF that(1) [unfolded res_def], of Lucro]
          rows_of_store_absent [OF that(2)]
    by (simp add: cur_def)
  from d s p c show ?thesis by blast
qed

theorem yoy_by_store_outer_join_witness:
  "(map y_loja (calculate_yoy_by_store 19889 sample_table (Some 2024) (Some 2023))
      = [''A'', ''B'', ''C''] \<and>
    map quantidade_atual (calculate_yoy_by_store 19889 sample_table (Some 2024) (Some 2023))
      = [4, 2, 0] \<and>
    map quantidade_anterior (calculate_yoy_by_store 19889 sample_table (Some 2024) (Some 2023))
      = [0, 4, 1] \<and>
    map loja (filter (\<lambda>r. ano r = 2024) sample_table) = [''B'', ''A'', ''A''] \<and>
    map loja (filter (\<lambda>r. ano r = 2023) sample_table) = [''B'', ''C'']) \<and>
   distinct (map y_loja (calculate_yoy_by_store 19889 sample_table (Some 2024) (Some 2023))) \<and>
   (quantidade_anterior (hd (calculate_yoy_by_store 19889 sample_table (Some 2024) (Some 2023))) = 0 \<and>
    receita_anterior (hd (calculate_yoy_by_store 19889 sample_table (Some 2024) (Some 2023))) = 0 \<and>
    lucro_anterior (hd (calculate_yoy_by_store 19889 sample_table (Some 2024) (Some 2023))) = 0) \<and>
   (quantidade_atual (last (calculate_yoy_by_store 19889 sample_table (Some 2024) (Some 2023))) = 0 \<and>
    receita_atual (last (calculate_yoy_by_store 19889 sample_table (Some 2024) (Some 2023))) = 0 \<and>
    lucro_atual (last (calculate_yoy_by_store 19889 sample_table (Some 2024) (Some 2023))) = 0)"
proof -
  let ?res = "calculate_yoy_by_store 19889 sample_table (Some 2024) (Some 2023)"
  note join = yoy_by_store_outer_join
    [where now = 19889 and df = sample_table and cy = "Some 2024" and py = "Some 2023"]
  have ev:
    "map y_loja ?res = [''A'', ''B'', ''C''] \<and>
     map quantidade_atual ?res = [4, 2, 0] \<and>
     map quantidade_anterior ?res = [0, 4, 1] \<and>
     map loja (filter (\<lambda>r. ano r = 2024) sample_table) = [''B'', ''A'', ''A''] \<and>
     map loja (filter (\<lambda>r. ano r = 2023) sample_table) = [''B'', ''C'']"
    by code_simp
  have mem: "hd ?res \<in> set ?res" "last ?res \<in> set ?res"
    by code_simp+
  have new: "y_loja (hd ?res) \<notin> loja ` set (filter (\<lambda>r. ano r =
        default_previous (default_year 19889 (Some 2024)) (Some 2023)) sample_table)"
    by code_simp
  have gone: "y_loja (last ?res) \<notin> loja ` set (filter (\<lambda>r. ano r =
        default_year 19889 (Some 2024)) sample_table)"
    by code_simp
  from join have d: "distinct (map y_loja ?res)"
    by blast
  from join mem(1) new have p:
    "quantidade_anterior (hd ?res) = 0 \<and> receita_anterior (hd ?res) = 0 \<and>
     lucro_anterior (hd ?res) = 0"
    by blast
  from join mem(2) gone have c:
    "quantidade_atual (last ?res) = 0 \<and> receita_atual (last ?res) = 0 \<and>
     lucro_atual (last ?res) = 0"
    by blast
  from ev d p c show ?thesis
    by blast
qed

subsection \<open>Grouping\<close>

lemma sum_list_indicator:
  "distinct ks \<Longrightarrow> a \<in> set ks \<Longrightarrow>
     sum_list (map (\<lambda>k. if a = k then (c :: real) else 0) ks) = c"
  by (simp add: sum_list_distinct_conv_sum_set sum.delta')

text \<open>Summing the sums of the groups of a key gives the sum of all rows, as long as
  every row's key is among the (distinct) group keys.\<close>

lemma sum_list_by_key:
  fixes f :: "'a \<Rightarrow> real"
  assumes "distinct ks"
  shows "key ` set xs \<subseteq> set ks \<Longrightarrow>
     sum_list (map (\<lambda>k. sum_list (map f (filter (\<lambda>x. key x = k) xs))) ks) = sum_list (map f xs)"
proof (induction xs)
  case Nil
  show ?case by simp
next
  case (Cons x xs)
  have split: "(\<lambda>k. sum_list (map f (filter (\<lambda>y. key y = k) (x # xs)))) =
      (\<lambda>k. (if key x = k then f x else 0) + sum_list (map f (filter (\<lambda>y. key y = k) xs)))"
    by (rule ext) simp
  from Cons.prems have x: "key x \<in> set ks" and rest: "key ` set xs \<subseteq> set ks"
    by auto
  show ?case
    unfolding split
    by (simp add: sum_list_addf sum_list_indicator [OF assms x] Cons.IH [OF rest])
qed

lemma sum_rows_of_store:
  "sum_list (map (\<lambda>s. sum_list (map f (rows_of_store s df))) (store_keys df))
     = sum_list (map (f :: row \<Rightarrow> real) df)"
  unfolding rows_of_store_def
  by (rule sum_list_by_key) (simp_all add: distinct_store_keys set_store_keys)

text \<open>A store's rows are the rows of its two channels.\<close>

lemma sum_rows_of_group:
  "sum_list (map f (rows_of_group s Atacado df)) + sum_list (map f (rows_of_group s Varejo df))
     = sum_list (map (f :: row \<Rightarrow> real) (rows_of_store s df))"
proof (induction df)
  case Nil
  show ?case by (simp add: rows_of_group_def rows_of_store_def)
next
  case (Cons r df)
  then show ?case
    by (cases "tipoCliente r") (simp_all add: rows_of_group_def rows_of_store_def)
qed

lemma sum_channel_keys_of_store:
  "sum_list (map (\<lambda>(s', t). sum_list (map f (rows_of_group s' t df)))
      (filter (\<lambda>(s', t). rows_of_group s' t df \<noteq> []) [(s, Atacado), (s, Varejo)]))
     = sum_list (map (f :: row \<Rightarrow> real) (rows_of_store s df))"
  using sum_rows_of_group [of f s df] by auto

lemma sum_list_concat_groups:
  "sum_list (map g (concat (map h ks))) = sum_list (map (\<lambda>k. sum_list (map g (h k))) ks)"
  for g :: "'a \<Rightarrow> real"
  by (induction ks) simp_all

lemma sum_channel_keys:
  "sum_list (map (\<lambda>(s, t). sum_list (map f (rows_of_group s t df))) (channel_keys df))
     = sum_list (map (f :: row \<Rightarrow> real) df)"
proof -
  have "sum_list (map (\<lambda>(s, t). sum_list (map f (rows_of_group s t df))) (channel_keys df))
      = sum_list (map (\<lambda>s. sum_list (map f (rows_of_store s df))) (store_keys df))"
    by (simp only: channel_keys_def sum_list_concat_groups sum_channel_keys_of_store)
  then show ?thesis
    by (simp add: sum_rows_of_store)
qed

lemma c_metric_channel_metrics:
  "c_metric m (channel_metrics df (s, t)) = sum_list (map (column m) (rows_of_group s t df))"
  by (cases m) (simp_all add: channel_metrics_def Let_def column_eqs)

text \<open>
  Claim C5. For every table and every metric, the per-group sums of
  \<open>calculate_by_store_and_channel\<close>, summed over all (store, customer type) groups,
  are \<open>calculate_total\<close> of the table. Finite floats are modelled as reals, so the
  equality is exact here; the claim's tolerance covers the rounding of float64 sums.
\<close>

theorem grouping_preserves_total:
  "sum_list (map (c_metric m) (calculate_by_store_and_channel df)) = calculate_total df m"
proof -
  have "map (c_metric m) (calculate_by_store_and_channel df) =
      map (\<lambda>(s, t). sum_list (map (column m) (rows_of_group s t df))) (channel_keys df)"
    by (simp add: calculate_by_store_and_channel_def c_metric_channel_metrics split_def
        flip: c_metric_channel_metrics)
  then show ?thesis
    by (simp add: sum_channel_keys calculate_total_def)
qed

theorem grouping_preserves_total_witness:
  "map (c_metric Receita) (calculate_by_store_and_channel sample_table) = [50, 1, 20, 10, 7] \<and>
   sum_list (map (c_metric Receita) (calculate_by_store_and_channel sample_table)) = 88 \<and>
   calculate_total sample_table Receita = 88"
proof -
  have ev: "map (c_metric Receita) (calculate_by_store_and_channel sample_table)
      = [50, 1, 20, 10, 7]"
    by code_simp
  have "sum_list (map (c_metric Receita) (calculate_by_store_and_channel sample_table)) = 88"
    unfolding ev by simp
  with grouping_preserves_total [of Receita sample_table] ev show ?thesis
    by simp
qed

subsection \<open>Averages of a group without quantity\<close>

text \<open>
  Claim C2, as amended. In \<open>calculate_by_store_and_channel\<close>, a group whose summed
  quantity is 0 has \<open>ticket_medio\<close> equal to NaN (pandas' missing value) only when
  its revenue sum is 0 as well; when the revenue sum is not 0 it is the infinity of the
  sign of the revenue sum, which pandas does not treat as missing. The same holds for
  \<open>lucro_medio\<close> and the profit sum. In either case the field is not a finite number,
  and the function does not raise.
\<close>

theorem zero_quantity_averages:
  "\<forall>r \<in> set (calculate_by_store_and_channel df). c_quantidade r = 0 \<longrightarrow>
     ticket_medio r = (if c_receita r = 0 then NaN else if 0 < c_receita r then PInf else NInf) \<and>
     lucro_medio r = (if c_lucro r = 0 then NaN else if 0 < c_lucro r then PInf else NInf)"
proof (intro ballI impI)
  fix r
  assume "r \<in> set (calculate_by_store_and_channel df)" and zero: "c_quantidade r = 0"
  then obtain s t where r: "r = channel_metrics df (s, t)"
    by (auto simp: calculate_by_store_and_channel_def)
  from zero show
    "ticket_medio r = (if c_receita r = 0 then NaN else if 0 < c_receita r then PInf else NInf) \<and>
     lucro_medio r = (if c_lucro r = 0 then NaN else if 0 < c_lucro r then PInf else NInf)"
    unfolding r by (simp add: channel_metrics_def Let_def fdiv_def)
qed

theorem zero_quantity_averages_witness:
  "(map c_loja (calculate_by_store_and_channel zero_quantity_table) = [''A'', ''B''] \<and>
    map c_quantidade (calculate_by_store_and_channel zero_quantity_table) = [0, 0] \<and>
    map c_receita (calculate_by_store_and_channel zero_quantity_table) = [10, 0] \<and>
    map c_lucro (calculate_by_store_and_channel zero_quantity_table) = [-2, 0]) \<and>
   (ticket_medio (hd (calculate_by_store_and_channel zero_quantity_table)) = PInf \<and>
    lucro_medio (hd (calculate_by_store_and_channel zero_quantity_table)) = NInf) \<and>
   (ticket_medio (last (calculate_by_store_and_channel zero_quantity_table)) = NaN \<and>
    lucro_medio (last (calculate_by_store_and_channel zero_quantity_table)) = NaN)"
proof -
  let ?res = "calculate_by_store_and_channel zero_quantity_table"
  note avg = zero_quantity_averages [of zero_quantity_table]
  have ev:
    "map c_loja ?res = [''A'', ''B''] \<and> map c_quantidade ?res = [0, 0] \<and>
     map c_receita ?res = [10, 0] \<and> map c_lucro ?res = [-2, 0]"
    by code_simp
  have mem: "hd ?res \<in> set ?res" "last ?res \<in> set ?res"
    by code_simp+
  have a: "c_quantidade (hd ?res) = 0" "c_receita (hd ?res) = 10" "c_lucro (hd ?res) = -2"
    by code_simp+
  have b: "c_quantidade (last ?res) = 0" "c_receita (last ?res) = 0" "c_lucro (last ?res) = 0"
    by code_simp+
  from avg mem(1) a(1) have
    "ticket_medio (hd ?res) =
       (if c_receita (hd ?res) = 0 then NaN else if 0 < c_receita (hd ?res) then PInf else NInf) \<and>
     lucro_medio (hd ?res) =
       (if c_lucro (hd ?res) = 0 then NaN else if 0 < c_lucro (hd ?res) then PInf else NInf)"
    by blast
  then have first: "ticket_medio (hd ?res) = PInf \<and> lucro_medio (hd ?res) = NInf"
    unfolding a by simp
  from avg mem(2) b(1) have
    "ticket_medio (last ?res) =
       (if c_receita (last ?res) = 0 then NaN
        else if 0 < c_receita (last ?res) then PInf else NInf) \<and>
     lucro_medio (last ?res) =
       (if c_lucro (last ?res) = 0 then NaN else if 0 < c_lucro (last ?res) then PInf else NInf)"
    by blast
  then have second: "ticket_medio (last ?res) = NaN \<and> lucro_medio (last ?res) = NaN"
    unfolding b by simp
  from ev first second show ?thesis
    by blast
qed

text \<open>
  The claim as the specification states it (every such field is the missing-value
  marker) fails on a group that sold nothing but has revenue: its \<open>ticket_medio\<close> is
  \<open>inf\<close>, for which \<^verbatim>\<open>isna\<close> is false.
\<close>

theorem zero_quantity_not_missing_counterexample:
  "c_quantidade (hd (calculate_by_store_and_channel zero_quantity_table)) = 0 \<and>
   ticket_medio (hd (calculate_by_store_and_channel zero_quantity_table)) = PInf \<and>
   \<not> isna (ticket_medio (hd (calculate_by_store_and_channel zero_quantity_table)))"
  by code_simp

subsection \<open>Sales distribution\<close>





lemma empty_group_sum: "rows_of_group s t df = [] \<Longrightarrow> sum_list (map f (rows_of_group s t df)) = 0"
  by simp









subsection \<open>Year to date\<close>

text \<open>
  The previous-year value of \<open>calculate_yoy\<close> is \<open>calculate_ytd\<close> of the previous
  year with the processing date as the bound. The bound is a date, not a day of the
  year: it lets every row through that is dated on or before the processing date, so
  for a year that is over it bounds nothing.
\<close>

lemma previous_value_is_ytd:
  "previous_value (calculate_yoy now df col cy py) =
     calculate_ytd now df col (Some (default_previous (default_year now cy) py))"
  by (simp add: calculate_yoy_def Let_def)

lemma calculate_ytd_past_year:
  assumes "\<forall>r \<in> set df. ano r = y \<longrightarrow> data r \<le> now"
  shows "calculate_ytd now df col (Some y) = sum_list (map (column col) (filter (\<lambda>r. ano r = y) df))"
proof -
  from assms have "filter (\<lambda>r. ano r = y \<and> data r \<le> now) df = filter (\<lambda>r. ano r = y) df"
    by (intro filter_cong) auto
  then show ?thesis
    by (simp add: calculate_ytd_def default_year_def)
qed

text \<open>
  Claim C1. The claim is that \<open>previous_value\<close> is the previous year summed only up
  to the same day-of-year boundary as the current year, a partial total. The code
  comments say the same (year to date for both years), but the code does not do it.
  On 2024-06-15 (day 167 of its year), with one sale on 2023-12-31 (day 365 of its
  year) and one on 2024-01-15, \<open>calculate_yoy\<close> for 2024 against 2023 counts the sale
  of 2023-12-31: \<open>previous_value\<close> is 100, the whole of 2023, where the sum up to the
  same day of the year is 0.
\<close>

theorem yoy_previous_counts_whole_year:
  "day_of_year 19889 = 167 \<and> map day_of_year (map data year_end_table) = [365, 15] \<and>
   current_value (calculate_yoy 19889 year_end_table Receita (Some 2024) (Some 2023)) = 40 \<and>
   previous_value (calculate_yoy 19889 year_end_table Receita (Some 2024) (Some 2023)) = 100 \<and>
   spec_ytd_same_day_of_year 19889 year_end_table Receita 2023 = 0"
  by code_simp

subsection \<open>Period series\<close>

text \<open>Months on day numbers: the month of a day is the one month that begins on or
  before it and whose successor begins after it.\<close>

lemma span_step:
  fixes a b c m :: int
  assumes "a + 28 \<le> b \<and> b \<le> a + 31" and "c + 28 * m \<le> a \<and> a \<le> c + 31 * m"
  shows "c + 28 * (m + 1) \<le> b \<and> b \<le> c + 31 * (m + 1)"
  using assms by (simp add: algebra_simps)

lemma first_day_span:
  "first_day i + 28 * int n \<le> first_day (i + int n) \<and>
   first_day (i + int n) \<le> first_day i + 31 * int n"
proof (induction n)
  case 0
  show ?case by simp
next
  case (Suc n)
  have s: "int (Suc n) = int n + 1"
    by simp
  show ?case
    unfolding s
    by (rule span_step [OF first_day_step [of "i + int n", unfolded add.assoc] Suc])
qed

lemma first_day_strict_mono: "i < j \<Longrightarrow> first_day i < first_day j"
proof -
  assume "i < j"
  then obtain n where j: "j = i + int n" and n: "0 < n"
    by (metis zero_less_imp_eq_int add.commute diff_add_cancel diff_gt_0_iff_gt)
  with first_day_span [of i n] show ?thesis
    by simp
qed

lemma first_day_mono: "i \<le> j \<Longrightarrow> first_day i \<le> first_day j"
  using first_day_strict_mono [of i j] by (cases "i = j") auto

lemma first_day_epoch: "first_day 23640 = 0"
  by (simp add: first_day_def days_from_civil_def)

lemma month_guess_before: "first_day (month_guess z) \<le> z"
proof (cases "0 \<le> z")
  case True
  then have "first_day (23640 + int (nat (z div 31))) \<le> first_day 23640 + 31 * int (nat (z div 31))"
    using first_day_span [of 23640 "nat (z div 31)"] by simp
  also have "\<dots> = 31 * (z div 31)"
    using True by (simp add: first_day_epoch pos_imp_zdiv_nonneg_iff)
  also have "\<dots> \<le> z"
    by presburger
  finally show ?thesis
    using True by (simp add: month_guess_def pos_imp_zdiv_nonneg_iff)
next
  case False
  then have neg: "z div 28 < 0"
    by presburger
  define n where "n = nat (- (z div 28))"
  have origin: "23640 = (23640 + z div 28) + int n"
    using neg by (simp add: n_def)
  have "first_day (23640 + z div 28) + 28 * int n \<le> first_day ((23640 + z div 28) + int n)"
    using first_day_span [of "23640 + z div 28" n] by simp
  then have "first_day (23640 + z div 28) \<le> 28 * (z div 28)"
    using neg unfolding origin [symmetric] first_day_epoch by (simp add: n_def)
  also have "\<dots> \<le> z"
    by presburger
  finally show ?thesis
    using False by (simp add: month_guess_def)
qed

lemma month_from_bracket:
  "first_day i \<le> z \<Longrightarrow>
     first_day (month_from z i) \<le> z \<and> z < first_day (month_from z i + 1)"
proof (induction z i rule: month_from.induct)
  case (1 z i)
  show ?case
  proof (cases "first_day (i + 1) \<le> z")
    case True
    then show ?thesis
      using "1.IH" by (subst (1 2) month_from.simps) simp
  next
    case False
    then show ?thesis
      using "1.prems" by (subst (1 2) month_from.simps) simp
  qed
qed

lemma month_index_bracket:
  "first_day (month_index z) \<le> z \<and> z < first_day (month_index z + 1)"
  unfolding month_index_def by (rule month_from_bracket) (rule month_guess_before)

lemma month_index_unique:
  assumes "first_day i \<le> z" "z < first_day (i + 1)"
  shows "month_index z = i"
proof (rule ccontr)
  assume ne: "month_index z \<noteq> i"
  note b = month_index_bracket [of z]
  show False
  proof (cases "month_index z < i")
    case True
    then have "first_day (month_index z + 1) \<le> first_day i"
      by (intro first_day_mono) simp
    with b assms show False by simp
  next
    case False
    with ne have "first_day (i + 1) \<le> first_day (month_index z)"
      by (intro first_day_mono) simp
    with b assms show False by simp
  qed
qed

lemma month_index_mono: "a \<le> b \<Longrightarrow> month_index a \<le> month_index b"
proof (rule ccontr)
  assume ab: "a \<le> b" and "\<not> month_index a \<le> month_index b"
  then have "first_day (month_index b + 1) \<le> first_day (month_index a)"
    by (intro first_day_mono) simp
  with month_index_bracket [of a] month_index_bracket [of b] ab show False
    by simp
qed

text \<open>\<open>civil_from_days\<close> inverts \<open>days_from_civil\<close>, with a month from 1 to 12 and a
  day inside the month.\<close>

lemma days_from_civil_day: "days_from_civil y m d = days_from_civil y m 1 + d - 1"
  by (simp add: days_from_civil_def Let_def)

lemma civil_from_days_inverse:
  assumes "civil_from_days z = (y, m, d)"
  shows "days_from_civil y m d = z \<and> 1 \<le> m \<and> m \<le> 12 \<and> 1 \<le> d \<and> d \<le> 31"
proof -
  define i where "i = month_index z"
  from assms have y: "y = i div 12" and m: "m = i mod 12 + 1" and d: "d = z - first_day i + 1"
    by (simp_all add: civil_from_days_def Let_def i_def)
  have b: "first_day i \<le> z" "z < first_day (i + 1)"
    using month_index_bracket [of z] by (simp_all add: i_def)
  have "days_from_civil y m d = first_day i + d - 1"
    unfolding y m first_day_def by (rule days_from_civil_day)
  then have "days_from_civil y m d = z"
    by (simp add: d)
  moreover have "1 \<le> m" "m \<le> 12"
    unfolding m by simp_all
  moreover have "1 \<le> d" "d \<le> 31"
    using b first_day_step [of i] by (simp_all add: d)
  ultimately show ?thesis
    by simp
qed

lemma civil_from_days_examples:
  "civil_from_days 0 = (1970, 1, 1)" "civil_from_days (- 1) = (1969, 12, 31)"
  "civil_from_days 11016 = (2000, 2, 29)" "civil_from_days 11017 = (2000, 3, 1)"
  "civil_from_days 19722 = (2023, 12, 31)" "civil_from_days 19723 = (2024, 1, 1)"
  "civil_from_days 19889 = (2024, 6, 15)" "civil_from_days 47540 = (2100, 2, 28)"
  "civil_from_days 47541 = (2100, 3, 1)"
  by code_simp+

lemma month_end_eq: "month_end z = first_day (month_index z + 1) - 1"
proof -
  define i where "i = month_index z"
  define y where "y = i div 12"
  define k where "k = i mod 12"
  have i: "i = 12 * y + k" and k: "0 \<le> k" "k < 12"
    by (simp_all add: y_def k_def)
  show ?thesis
  proof (cases "k = 11")
    case True
    then have "(i + 1) div 12 = y + 1" "(i + 1) mod 12 = 0"
      unfolding i by simp_all
    then show ?thesis
      using True
      by (simp add: month_end_def civil_from_days_def Let_def first_day_def
          flip: i_def y_def k_def)
  next
    case False
    with k have "(i + 1) div 12 = y" "(i + 1) mod 12 = k + 1"
      unfolding i by presburger+
    then show ?thesis
      using False
      by (simp add: month_end_def civil_from_days_def Let_def first_day_def
          flip: i_def y_def k_def)
  qed
qed

lemma month_index_month_end: "month_index (month_end z) = month_index z"
proof (rule month_index_unique)
  show "first_day (month_index z) \<le> month_end z"
    using first_day_step [of "month_index z"] by (simp add: month_end_eq)
  show "month_end z < first_day (month_index z + 1)"
    by (simp add: month_end_eq)
qed

lemma month_end_idem: "month_end (month_end z) = month_end z"
proof -
  have "month_end (month_end z) = first_day (month_index (month_end z) + 1) - 1"
    by (rule month_end_eq)
  also have "\<dots> = first_day (month_index z + 1) - 1"
    by (simp only: month_index_month_end)
  also have "\<dots> = month_end z"
    by (rule month_end_eq [symmetric])
  finally show ?thesis .
qed

lemma month_end_mono: "a \<le> b \<Longrightarrow> month_end a \<le> month_end b"
  using first_day_mono [of "month_index a + 1" "month_index b + 1"] month_index_mono [of a b]
  by (simp add: month_end_eq)

lemma period_label_idem: "period_label p (period_label p z) = period_label p z"
proof (cases p)
  case W
  have "(z + (6 - (z + 3) mod 7) + 3) mod 7 = 6"
    by presburger
  then show ?thesis
    using W by (simp add: weekday_def)
qed (simp_all add: month_end_idem)

lemma period_label_mono: "a \<le> b \<Longrightarrow> period_label p a \<le> period_label p b"
proof (cases p)
  case W
  assume "a \<le> b"
  then have "a + (6 - (a + 3) mod 7) \<le> b + (6 - (b + 3) mod 7)"
    by presburger
  then show ?thesis
    using W by (simp add: weekday_def)
qed (simp_all add: month_end_mono)

lemma set_bin_labels:
  "set (bin_labels p a b) =
     {k. period_label p k = k \<and> period_label p a \<le> k \<and> k \<le> period_label p b}"
  by (auto simp: bin_labels_def)

lemma sorted_bin_labels: "sorted (bin_labels p a b) \<and> distinct (bin_labels p a b)"
  by (simp add: bin_labels_def sorted_wrt_filter)

lemma map_fst_aggregate_by_period:
  "map fst (aggregate_by_period df col p) =
     (if df = [] then [] else bin_labels p (Min (set (map data df))) (Max (set (map data df))))"
  by (simp add: aggregate_by_period_def comp_def)

text \<open>
  Claim C7, as amended. \<open>aggregate_by_period\<close> returns pairs (bin label, metric sum)
  sorted strictly ascending by label. The labels are all the bin labels of the
  frequency from the bin of the earliest row to the bin of the latest row: the bin of
  every row is in the output, and a bin of that range with zero rows appears as well,
  with sum 0. The label of a bin is the day itself for 'D', the Sunday that closes the
  week for 'W' and the last day of the month for 'M', not the start of the bucket.
  Each sum is the sum of the metric over the rows of the bin.
\<close>

theorem by_period_dense_and_sorted:
  "sorted (map fst (aggregate_by_period df col p)) \<and>
   distinct (map fst (aggregate_by_period df col p)) \<and>
   (df \<noteq> [] \<longrightarrow>
      set (map fst (aggregate_by_period df col p)) =
        {k. period_label p k = k \<and>
            period_label p (Min (set (map data df))) \<le> k \<and>
            k \<le> period_label p (Max (set (map data df)))}) \<and>
   (\<forall>kv \<in> set (aggregate_by_period df col p).
      snd kv = sum_list (map (column col) (rows_in_bin p (fst kv) df)) \<and>
      (rows_in_bin p (fst kv) df = [] \<longrightarrow> snd kv = 0)) \<and>
   (\<forall>r \<in> set df. period_label p (data r) \<in> set (map fst (aggregate_by_period df col p)))"
proof (intro conjI impI ballI)
  show "sorted (map fst (aggregate_by_period df col p))"
    by (simp add: map_fst_aggregate_by_period sorted_bin_labels)
  show "distinct (map fst (aggregate_by_period df col p))"
    by (simp add: map_fst_aggregate_by_period sorted_bin_labels)
next
  assume "df \<noteq> []"
  then show "set (map fst (aggregate_by_period df col p)) =
        {k. period_label p k = k \<and>
            period_label p (Min (set (map data df))) \<le> k \<and>
            k \<le> period_label p (Max (set (map data df)))}"
    by (simp only: map_fst_aggregate_by_period set_bin_labels if_False)
next
  fix kv assume kv: "kv \<in> set (aggregate_by_period df col p)"
  then show sum: "snd kv = sum_list (map (column col) (rows_in_bin p (fst kv) df))"
    by (auto simp: aggregate_by_period_def split: if_splits)
  assume "rows_in_bin p (fst kv) df = []"
  then show "snd kv = 0"
    unfolding sum by simp
next
  fix r assume r: "r \<in> set df"
  then have ne: "df \<noteq> []"
    by auto
  from r have "Min (set (map data df)) \<le> data r" "data r \<le> Max (set (map data df))"
    by simp_all
  then have "period_label p (Min (set (map data df))) \<le> period_label p (data r)"
    "period_label p (data r) \<le> period_label p (Max (set (map data df)))"
    by (simp_all add: period_label_mono)
  then have "period_label p (data r) \<in>
      set (bin_labels p (Min (set (map data df))) (Max (set (map data df))))"
    by (simp add: set_bin_labels period_label_idem)
  with ne show "period_label p (data r) \<in> set (map fst (aggregate_by_period df col p))"
    by (simp only: map_fst_aggregate_by_period if_False)
qed

theorem by_period_dense_and_sorted_witness:
  "(aggregate_by_period gap_table Receita W = [(19729, 100), (19736, 0), (19743, 50)] \<and>
    aggregate_by_period gap_table Receita M = [(19753, 150)] \<and>
    map data gap_table = [19723, 19737] \<and>
    rows_in_bin W 19736 gap_table = []) \<and>
   sorted (map fst (aggregate_by_period gap_table Receita W)) \<and>
   snd (19736 :: int, 0 :: real) = 0 \<and>
   period_label W (data (hd gap_table)) \<in> set (map fst (aggregate_by_period gap_table Receita W)) \<and>
   period_label M (data (hd gap_table)) \<in> set (map fst (aggregate_by_period gap_table Receita M))"
proof -
  note series = by_period_dense_and_sorted [where df = gap_table and col = Receita and p = W]
  note months = by_period_dense_and_sorted [where df = gap_table and col = Receita and p = M]
  have ev:
    "aggregate_by_period gap_table Receita W = [(19729, 100), (19736, 0), (19743, 50)] \<and>
     aggregate_by_period gap_table Receita M = [(19753, 150)] \<and>
     map data gap_table = [19723, 19737] \<and>
     rows_in_bin W 19736 gap_table = []"
    by code_simp
  have mem: "(19736, 0) \<in> set (aggregate_by_period gap_table Receita W)"
    by code_simp
  have empty: "rows_in_bin W (fst (19736 :: int, 0 :: real)) gap_table = []"
    by code_simp
  have row: "hd gap_table \<in> set gap_table"
    by code_simp
  from series have s: "sorted (map fst (aggregate_by_period gap_table Receita W))"
    by blast
  from series mem empty have z: "snd (19736 :: int, 0 :: real) = 0"
    by blast
  from series row have
    r: "period_label W (data (hd gap_table)) \<in> set (map fst (aggregate_by_period gap_table Receita W))"
    by blast
  from months row have
    m: "period_label M (data (hd gap_table)) \<in> set (map fst (aggregate_by_period gap_table Receita M))"
    by blast
  from ev s z r m show ?thesis
    by blast
qed

text \<open>
  The claim as the specification states it fails: with sales on Monday 2024-01-01 and
  on Monday 2024-01-15 only, the weekly series has three entries. The week closing on
  Sunday 2024-01-14 (day 19736) holds no row and appears with sum 0, and the first
  entry is keyed by Sunday 2024-01-07 (day 19729), the end of the week of the first
  sale, not its start.
\<close>

theorem by_period_empty_bucket_counterexample:
  "map data gap_table = [19723, 19737] \<and>
   aggregate_by_period gap_table Receita W = [(19729, 100), (19736, 0), (19743, 50)] \<and>
   rows_in_bin W 19736 gap_table = [] \<and>
   weekday 19729 = 6"
  by code_simp

end
